theory Spec2Isabelle
  imports Complex_Main
begin

section \<open>Values: timestamps, floats, series\<close>

text \<open>
  The model of \<^verbatim>\<open>src/pasta/model.py\<close> (class \<^verbatim>\<open>Model\<close>). The class works on pandas
  objects; what the code relies on is written out here.

  A timestamp is its number of nanoseconds since the epoch, as pandas stores it. A
  \<^verbatim>\<open>pd.Timestamp\<close> lies between \<^verbatim>\<open>pd.Timestamp.min\<close> and \<^verbatim>\<open>pd.Timestamp.max\<close>;
  the not-a-time value \<^verbatim>\<open>NaT\<close> is the smallest 64-bit integer, and every ordering
  comparison with it is false. Only the order of these constants matters below.
\<close>

type_synonym time = int

definition Timestamp_min :: time where
  "Timestamp_min = - 9223285636854775000"

definition Timestamp_max :: time where
  "Timestamp_max = 9223372036854775807"

definition NaT :: time where
  "NaT = - 9223372036854775808"

definition valid_ts :: "time \<Rightarrow> bool" where
  "valid_ts t \<longleftrightarrow> Timestamp_min \<le> t \<and> t \<le> Timestamp_max"

definition ts_lt :: "time \<Rightarrow> time \<Rightarrow> bool" where
  "ts_lt a b \<longleftrightarrow> a \<noteq> NaT \<and> b \<noteq> NaT \<and> a < b"

definition ts_gt :: "time \<Rightarrow> time \<Rightarrow> bool" where
  "ts_gt a b \<longleftrightarrow> ts_lt b a"

definition ts_le :: "time \<Rightarrow> time \<Rightarrow> bool" where
  "ts_le a b \<longleftrightarrow> a \<noteq> NaT \<and> b \<noteq> NaT \<and> a \<le> b"

text \<open>One day, the step of the frequency \<^verbatim>\<open>'D'\<close>, in nanoseconds.\<close>

definition D :: nat where
  "D = 86400000000000"

definition days :: "int \<Rightarrow> time" where
  "days n = n * int D"

definition hours :: "int \<Rightarrow> time" where
  "hours n = n * 3600000000000"

text \<open>
  A float is a finite number, an infinity or NaN. Finite arithmetic is exact here:
  rounding is not modelled, the special values follow IEEE 754.
\<close>

datatype fl = Fin real | PInf | NInf | NaN

fun fadd :: "fl \<Rightarrow> fl \<Rightarrow> fl" where
  "fadd NaN y = NaN"
| "fadd x NaN = NaN"
| "fadd PInf NInf = NaN"
| "fadd NInf PInf = NaN"
| "fadd PInf y = PInf"
| "fadd x PInf = PInf"
| "fadd NInf y = NInf"
| "fadd x NInf = NInf"
| "fadd (Fin a) (Fin b) = Fin (a + b)"

fun fneg :: "fl \<Rightarrow> fl" where
  "fneg (Fin a) = Fin (- a)"
| "fneg PInf = NInf"
| "fneg NInf = PInf"
| "fneg NaN = NaN"

definition fsub :: "fl \<Rightarrow> fl \<Rightarrow> fl" where
  "fsub x y = fadd x (fneg y)"

text \<open>\<^verbatim>\<open>x ** 2\<close>.\<close>

fun fsq :: "fl \<Rightarrow> fl" where
  "fsq (Fin a) = Fin (a * a)"
| "fsq PInf = PInf"
| "fsq NInf = PInf"
| "fsq NaN = NaN"

fun isnan :: "fl \<Rightarrow> bool" where
  "isnan NaN = True"
| "isnan x = False"

fun isfinite :: "fl \<Rightarrow> bool" where
  "isfinite (Fin a) = True"
| "isfinite x = False"

text \<open>
  A \<^verbatim>\<open>pd.Series\<close> is its list of (label, value) pairs in index order. The observed
  series has a strictly increasing index of valid timestamps (the result of
  \<^verbatim>\<open>check_oseries\<close>).
\<close>

type_synonym series = "(time \<times> fl) list"

definition index :: "series \<Rightarrow> time list" where
  "index s = map fst s"

definition "values" :: "series \<Rightarrow> fl list" where
  "values s = map snd s"

text \<open>\<^verbatim>\<open>index.min()\<close> and \<^verbatim>\<open>index.max()\<close>: \<^verbatim>\<open>NaT\<close> on an empty index.\<close>

definition index_min :: "series \<Rightarrow> time" where
  "index_min s = (case index s of [] \<Rightarrow> NaT | t # ts \<Rightarrow> fold min ts t)"

definition index_max :: "series \<Rightarrow> time" where
  "index_max s = (case index s of [] \<Rightarrow> NaT | t # ts \<Rightarrow> fold max ts t)"

text \<open>\<^verbatim>\<open>first_valid_index()\<close>, \<^verbatim>\<open>last_valid_index()\<close>: the first and last label whose
  value is not NaN, \<^verbatim>\<open>None\<close> when there is none.\<close>

definition first_valid_index :: "series \<Rightarrow> time option" where
  "first_valid_index s = (case filter (\<lambda>p. \<not> isnan (snd p)) s of [] \<Rightarrow> None | p # ps \<Rightarrow> Some (fst p))"

definition last_valid_index :: "series \<Rightarrow> time option" where
  "last_valid_index s = (case rev (filter (\<lambda>p. \<not> isnan (snd p)) s) of [] \<Rightarrow> None | p # ps \<Rightarrow> Some (fst p))"

text \<open>\<^verbatim>\<open>s[tmin: tmax]\<close>: label slicing of a series with an increasing index, both
  ends included.\<close>

definition slice_labels :: "series \<Rightarrow> time \<Rightarrow> time \<Rightarrow> series" where
  "slice_labels s lo hi = filter (\<lambda>p. ts_le lo (fst p) \<and> ts_le (fst p) hi) s"

text \<open>\<^verbatim>\<open>s[tindex]\<close> with an index as key is \<^verbatim>\<open>s.reindex(tindex)\<close>: the value of
  \<^verbatim>\<open>s\<close> at each label of the key, NaN at a label \<^verbatim>\<open>s\<close> does not have.\<close>

definition series_at :: "series \<Rightarrow> time \<Rightarrow> fl" where
  "series_at s t = (case map_of s t of None \<Rightarrow> NaN | Some v \<Rightarrow> v)"

definition reindex :: "series \<Rightarrow> time list \<Rightarrow> series" where
  "reindex s tindex = map (\<lambda>t. (t, series_at s t)) tindex"

section \<open>Errors and printed output\<close>

datatype error =
    AssertionError string
  | AttributeError string
  | ValueError string
  | OutOfBoundsDatetime
  | CollaboratorError string

datatype printed =
    Warn_tmin_outside "time option"
  | Warn_tmax_outside "time option"
  | Warn_no_noisemodel
  | Nan_problem
  | Report string

section \<open>Collaborators and the model object\<close>

text \<open>
  A row of a parameter DataFrame: its index label (a string, or a position where the
  frame has the default index) and the six columns the model's table has. A numeric
  cell that is missing is NaN, another missing cell is \<^verbatim>\<open>None\<close>.
\<close>

datatype key = Str string | Pos nat

record row =
  label :: key
  initial :: fl
  pmin :: fl
  pmax :: fl
  vary :: "bool option"
  optimal :: fl
  name :: "string option"

text \<open>
  A component (\<^verbatim>\<open>ts\<close>): \<^verbatim>\<open>isinstance(ts, Constant)\<close>, \<^verbatim>\<open>ts.nparam\<close>,
  \<^verbatim>\<open>ts.parameters\<close>, \<^verbatim>\<open>ts.tmin\<close>, \<^verbatim>\<open>ts.tmax\<close> and \<^verbatim>\<open>ts.simulate(p, tindex)\<close>,
  which gives the values of its contribution (one for each label of \<^verbatim>\<open>tindex\<close>, or
  a single one) or raises.
\<close>

record tseries =
  ts_name :: string
  is_Constant :: bool
  ts_nparam :: nat
  ts_parameters :: "row list"
  ts_tmin :: time
  ts_tmax :: time
  ts_simulate :: "fl list \<Rightarrow> time list \<Rightarrow> error + fl list"

record noisemodel_obj =
  nm_nparam :: nat
  nm_parameters :: "row list"
  nm_simulate :: "series \<Rightarrow> series \<Rightarrow> fl list \<Rightarrow> time list \<Rightarrow> error + series"

text \<open>
  The attributes of a \<^verbatim>\<open>Model\<close>. \<^verbatim>\<open>parameters\<close>, \<^verbatim>\<open>nparam\<close> and \<^verbatim>\<open>report\<close> do not
  exist before \<^verbatim>\<open>initialize\<close> and \<^verbatim>\<open>solve\<close> set them: \<^verbatim>\<open>None\<close> here is the missing
  attribute. \<^verbatim>\<open>tseriesdict\<close> is an \<^verbatim>\<open>OrderedDict\<close>: a list of (name, component) with
  distinct names, in insertion order.
\<close>

record Model =
  oseries :: series
  odelt :: series
  tseriesdict :: "(string \<times> tseries) list"
  noisemodel :: "noisemodel_obj option"
  tmin :: "time option"
  tmax :: "time option"
  parameters :: "row list option"
  nparam :: "nat option"
  report :: "string option"

text \<open>\<^verbatim>\<open>oseries.index.to_series().diff() / np.timedelta64(1, 'D')\<close>: the gap to the
  previous observation in days, NaN at the first one.\<close>

fun diff_days :: "time \<Rightarrow> time list \<Rightarrow> series" where
  "diff_days prev [] = []"
| "diff_days prev (t # ts) = (t, Fin (real_of_int (t - prev) / real D)) # diff_days t ts"

definition odelt_of :: "series \<Rightarrow> series" where
  "odelt_of s = (case index s of [] \<Rightarrow> [] | t # ts \<Rightarrow> (t, NaN) # diff_days t ts)"

definition Model_init :: "series \<Rightarrow> Model" where
  "Model_init s =
     \<lparr>oseries = s, odelt = odelt_of s, tseriesdict = [], noisemodel = None,
      tmin = None, tmax = None, parameters = None, nparam = None, report = None\<rparr>"

text \<open>\<^verbatim>\<open>self.tseriesdict[tseries.name] = tseries\<close>: an existing name keeps its place.\<close>

fun od_set :: "string \<Rightarrow> tseries \<Rightarrow> (string \<times> tseries) list \<Rightarrow> (string \<times> tseries) list" where
  "od_set k v [] = [(k, v)]"
| "od_set k v ((k', v') # kvs) = (if k = k' then (k, v) # kvs else (k', v') # od_set k v kvs)"

definition addtseries :: "Model \<Rightarrow> tseries \<Rightarrow> Model" where
  "addtseries m ts = m\<lparr>tseriesdict := od_set (ts_name ts) ts (tseriesdict m)\<rparr>"

definition addnoisemodel :: "Model \<Rightarrow> noisemodel_obj option \<Rightarrow> Model" where
  "addnoisemodel m nm = m\<lparr>noisemodel := nm\<rparr>"

definition components :: "Model \<Rightarrow> tseries list" where
  "components m = map snd (tseriesdict m)"

section \<open>check_series\<close>

text \<open>\<^verbatim>\<open>pd.tslib.Timestamp(t)\<close> raises when \<^verbatim>\<open>t\<close> is out of the representable range.\<close>

definition Timestamp :: "time \<Rightarrow> error + time" where
  "Timestamp t = (if valid_ts t then Inr t else Inl OutOfBoundsDatetime)"

text \<open>The loop over the components, on the pair \<^verbatim>\<open>(tstmin, tstmax)\<close>.\<close>

fun period_loop :: "tseries list \<Rightarrow> time \<times> time \<Rightarrow> time \<times> time" where
  "period_loop [] acc = acc"
| "period_loop (ts # rest) (tstmin, tstmax) =
     (if is_Constant ts then period_loop rest (tstmin, tstmax)
      else period_loop rest
        (if ts_lt (ts_tmin ts) tstmin then ts_tmin ts else tstmin,
         if ts_gt (ts_tmax ts) tstmax then ts_tmax ts else tstmax))"

definition check_series ::
  "Model \<Rightarrow> time option \<Rightarrow> time option \<Rightarrow> error + (Model \<times> printed list \<times> time \<times> time)" where
  "check_series m tmin_arg tmax_arg =
     (case (case tmin_arg of None \<Rightarrow> Inr (index_min (oseries m)) | Some t \<Rightarrow> Timestamp t) of
        Inl e \<Rightarrow> Inl e
      | Inr tmin0 \<Rightarrow>
     (case (case tmax_arg of None \<Rightarrow> Inr (index_max (oseries m)) | Some t \<Rightarrow> Timestamp t) of
        Inl e \<Rightarrow> Inl e
      | Inr tmax0 \<Rightarrow>
        (let out1 = (if tmin0 \<notin> set (index (oseries m))
                     then [Warn_tmin_outside (first_valid_index (oseries m))] else []);
             out2 = (if tmax0 \<notin> set (index (oseries m))
                     then [Warn_tmax_outside (last_valid_index (oseries m))] else []);
             tst = period_loop (components m) (Timestamp_min, Timestamp_max);
             m' = m\<lparr>tmin := Some tmin0, tmax := Some tmax0\<rparr>;
             tmin1 = (if ts_gt (fst tst) tmin0 then fst tst else tmin0);
             tmax1 = (if ts_lt (snd tst) tmax0 then snd tst else tmax0)
         in Inr (m', out1 @ out2, tmin1, tmax1))))"

section \<open>simulate\<close>

text \<open>
  \<^verbatim>\<open>pd.date_range(tmin, tmax, freq=freq)\<close> for a frequency that is a fixed step of
  \<^verbatim>\<open>freq\<close> nanoseconds: the instants \<^verbatim>\<open>tmin\<close>, \<^verbatim>\<open>tmin + freq\<close>, ... up to
  \<^verbatim>\<open>tmax\<close>; empty when \<^verbatim>\<open>tmax\<close> is before \<^verbatim>\<open>tmin\<close>.
\<close>

definition date_range :: "time \<Rightarrow> time \<Rightarrow> nat \<Rightarrow> error + time list" where
  "date_range lo hi freq =
     (if lo = NaT \<or> hi = NaT then Inl (ValueError ''Neither start nor end can be NaT'')
      else if \<not> valid_ts lo \<or> \<not> valid_ts hi then Inl OutOfBoundsDatetime
      else if freq = 0 then Inl (ValueError ''Could not evaluate the frequency'')
      else if hi < lo then Inr []
      else Inr (map (\<lambda>k. lo + int k * int freq) [0 ..< nat ((hi - lo) div int freq) + 1]))"

text \<open>
  \<^verbatim>\<open>h += c\<close>, where \<^verbatim>\<open>h\<close> has \<open>n\<close> values. numpy broadcasts the operand: a
  contribution of \<open>n\<close> values is added value by value, a contribution of one value
  (what the \<^verbatim>\<open>Constant\<close> component returns: its parameter) is added to every value
  of \<^verbatim>\<open>h\<close>, and any other length raises.
\<close>

definition broadcast :: "nat \<Rightarrow> fl list \<Rightarrow> error + fl list" where
  "broadcast n c =
     (if length c = n then Inr c
      else (case c of
              [x] \<Rightarrow> Inr (replicate n x)
            | _ \<Rightarrow> Inl (ValueError ''operands could not be broadcast together'')))"

definition add_contribution :: "fl list \<Rightarrow> fl list \<Rightarrow> error + fl list" where
  "add_contribution h c =
     (case broadcast (length h) c of
        Inl e \<Rightarrow> Inl e
      | Inr c' \<Rightarrow> Inr (map2 fadd h c'))"

text \<open>\<^verbatim>\<open>parameters[istart: istart + n]\<close>.\<close>

definition param_slice :: "fl list \<Rightarrow> nat \<Rightarrow> nat \<Rightarrow> fl list" where
  "param_slice ps istart n = take n (drop istart ps)"

text \<open>The loop of \<^verbatim>\<open>simulate\<close> over the components, on \<^verbatim>\<open>istart\<close> and \<^verbatim>\<open>h\<close>.\<close>

fun simulate_loop :: "tseries list \<Rightarrow> fl list \<Rightarrow> time list \<Rightarrow> nat \<Rightarrow> fl list \<Rightarrow> error + fl list" where
  "simulate_loop [] ps tindex istart h = Inr h"
| "simulate_loop (ts # rest) ps tindex istart h =
     (case ts_simulate ts (param_slice ps istart (ts_nparam ts)) tindex of
        Inl e \<Rightarrow> Inl e
      | Inr c \<Rightarrow>
          (case add_contribution h c of
             Inl e \<Rightarrow> Inl e
           | Inr h' \<Rightarrow> simulate_loop rest ps tindex (istart + ts_nparam ts) h'))"

text \<open>\<^verbatim>\<open>self.parameters.optimal.values\<close>, when no parameter vector is given.\<close>

definition optimal_values :: "Model \<Rightarrow> error + fl list" where
  "optimal_values m =
     (case parameters m of
        None \<Rightarrow> Inl (AttributeError ''Model instance has no attribute parameters'')
      | Some tab \<Rightarrow> Inr (map optimal tab))"

definition simulate ::
  "Model \<Rightarrow> fl list option \<Rightarrow> time option \<Rightarrow> time option \<Rightarrow> nat \<Rightarrow> error + series" where
  "simulate m parameters_arg tmin_arg tmax_arg freq =
     (case (case tmin_arg of None \<Rightarrow> tmin m | Some t \<Rightarrow> Some t,
            case tmax_arg of None \<Rightarrow> tmax m | Some t \<Rightarrow> Some t) of
        (Some lo, Some hi) \<Rightarrow>
          (case date_range lo hi freq of
             Inl e \<Rightarrow> Inl e
           | Inr tindex \<Rightarrow>
               (case (case parameters_arg of None \<Rightarrow> optimal_values m | Some ps \<Rightarrow> Inr ps) of
                  Inl e \<Rightarrow> Inl e
                | Inr ps \<Rightarrow>
                    (case simulate_loop (components m) ps tindex 0
                            (replicate (length tindex) (Fin 0)) of
                       Inl e \<Rightarrow> Inl e
                     | Inr h \<Rightarrow> Inr (zip tindex h))))
      | _ \<Rightarrow> Inl (AssertionError ''model needs to be solved first''))"

section \<open>residuals and sse\<close>

text \<open>The difference of two series that have the same index.\<close>

definition sub_series :: "series \<Rightarrow> series \<Rightarrow> series" where
  "sub_series a b = map2 (\<lambda>p q. (fst p, fsub (snd p) (snd q))) a b"

text \<open>\<^verbatim>\<open>parameters[-n:]\<close>: the last \<^verbatim>\<open>n\<close> entries, and the whole vector when
  \<^verbatim>\<open>n\<close> is 0.\<close>

definition tail_slice :: "fl list \<Rightarrow> nat \<Rightarrow> fl list" where
  "tail_slice ps n = (if n = 0 then ps else drop (length ps - n) ps)"

text \<open>Python's \<^verbatim>\<open>sum\<close>: from 0, left to right.\<close>

definition py_sum :: "fl list \<Rightarrow> fl" where
  "py_sum xs = foldl fadd (Fin 0) xs"

definition residuals ::
  "Model \<Rightarrow> fl list option \<Rightarrow> time option \<Rightarrow> time option \<Rightarrow> bool
     \<Rightarrow> error + (series \<times> printed list)" where
  "residuals m parameters_arg tmin_arg tmax_arg noise =
     (let tmin0 = (case tmin_arg of None \<Rightarrow> index_min (oseries m) | Some t \<Rightarrow> t);
          tmax0 = (case tmax_arg of None \<Rightarrow> index_max (oseries m) | Some t \<Rightarrow> t);
          tindex = index (slice_labels (oseries m) tmin0 tmax0)
      in case (case parameters_arg of None \<Rightarrow> optimal_values m | Some ps \<Rightarrow> Inr ps) of
           Inl e \<Rightarrow> Inl e
         | Inr ps \<Rightarrow>
             (case simulate m (Some ps) (Some tmin0) (Some tmax0) D of
                Inl e \<Rightarrow> Inl e
              | Inr h \<Rightarrow>
                  (case (if noise
                         then (case noisemodel m of
                                 None \<Rightarrow> Inr (sub_series (reindex (oseries m) tindex) (reindex h tindex))
                               | Some nm \<Rightarrow>
                                   nm_simulate nm
                                     (sub_series (reindex (oseries m) tindex) (reindex h tindex))
                                     (reindex (odelt m) tindex)
                                     (tail_slice ps (nm_nparam nm)) tindex)
                         else Inr (sub_series (reindex (oseries m) tindex) (reindex h tindex))) of
                     Inl e \<Rightarrow> Inl e
                   | Inr r \<Rightarrow>
                       Inr (r, if isnan (py_sum (map fsq (values r))) then [Nan_problem] else []))))"

definition sse ::
  "Model \<Rightarrow> fl list option \<Rightarrow> time option \<Rightarrow> time option \<Rightarrow> bool
     \<Rightarrow> error + (fl \<times> printed list)" where
  "sse m parameters_arg tmin_arg tmax_arg noise =
     (case residuals m parameters_arg tmin_arg tmax_arg noise of
        Inl e \<Rightarrow> Inl e
      | Inr (res, out) \<Rightarrow> Inr (py_sum (map fsq (values res)), out))"

section \<open>initialize and solve\<close>

text \<open>The rows \<^verbatim>\<open>initialize\<close> appends to the empty table: those of each component, in
  registration order, then those of the noise model.\<close>

definition appended_rows :: "Model \<Rightarrow> row list" where
  "appended_rows m =
     concat (map ts_parameters (components m))
       @ (case noisemodel m of None \<Rightarrow> [] | Some nm \<Rightarrow> nm_parameters nm)"

definition missing_row :: "key \<Rightarrow> row" where
  "missing_row k =
     \<lparr>label = k, initial = NaN, pmin = NaN, pmax = NaN, vary = None, optimal = NaN, name = None\<rparr>"

text \<open>
  \<^verbatim>\<open>self.parameters.initial = optimal\<close>, where \<^verbatim>\<open>optimal\<close> is a column of the previous
  table, a series with that table's labels. pandas aligns a series on the frame's
  index: a frame with no rows takes the index of the series; equal indexes give the
  values in order; otherwise each row gets the value at its label (NaN when the series
  does not have it), which fails when the labels of the series repeat.
\<close>

definition set_initial :: "row list \<Rightarrow> (key \<times> fl) list \<Rightarrow> error + row list" where
  "set_initial tab col =
     (if tab = [] then Inr (map (\<lambda>p. (missing_row (fst p))\<lparr>initial := snd p\<rparr>) col)
      else if map label tab = map fst col then Inr (map2 (\<lambda>r p. r\<lparr>initial := snd p\<rparr>) tab col)
      else if \<not> distinct (map fst col) then Inl (ValueError ''cannot reindex from a duplicate axis'')
      else Inr (map (\<lambda>r. r\<lparr>initial := (case map_of col (label r) of None \<Rightarrow> NaN | Some v \<Rightarrow> v)\<rparr>) tab))"

definition total_nparam :: "Model \<Rightarrow> nat" where
  "total_nparam m =
     sum_list (map ts_nparam (components m))
       + (case noisemodel m of None \<Rightarrow> 0 | Some nm \<Rightarrow> nm_nparam nm)"

text \<open>\<^verbatim>\<open>initialize\<close> returns the model as the call leaves it and the exception it raised,
  if any.\<close>

definition initialize :: "bool \<Rightarrow> Model \<Rightarrow> Model \<times> error option" where
  "initialize initial_arg m =
     (case (if \<not> initial_arg
            then (case parameters m of
                    None \<Rightarrow> Inl (AttributeError ''Model instance has no attribute parameters'')
                  | Some tab \<Rightarrow> Inr (Some (map (\<lambda>r. (label r, optimal r)) tab)))
            else Inr None) of
        Inl e \<Rightarrow> (m, Some e)
      | Inr opt \<Rightarrow>
          (let m1 = m\<lparr>nparam := Some (total_nparam m), parameters := Some (appended_rows m)\<rparr>
           in case opt of
                None \<Rightarrow> (m1, None)
              | Some col \<Rightarrow>
                  (case set_initial (appended_rows m) col of
                     Inl e \<Rightarrow> (m1, Some e)
                   | Inr tab \<Rightarrow> (m1\<lparr>parameters := Some tab\<rparr>, None))))"

text \<open>The solver: constructed with the model, the window and the noise flag, it gives
  \<^verbatim>\<open>optimal_params\<close> and \<^verbatim>\<open>report\<close>, or raises.\<close>

record fit =
  optimal_params :: "fl list"
  fit_report :: string

type_synonym solver = "Model \<Rightarrow> time \<Rightarrow> time \<Rightarrow> bool \<Rightarrow> error + fit"

text \<open>\<^verbatim>\<open>self.parameters.optimal = fit.optimal_params\<close> for an array: one value for each
  row; a frame with no rows takes the positions of the array as its index.\<close>

definition set_optimal :: "row list \<Rightarrow> fl list \<Rightarrow> error + row list" where
  "set_optimal tab vals =
     (if tab = [] then Inr (map (\<lambda>p. (missing_row (Pos (fst p)))\<lparr>optimal := snd p\<rparr>) (enumerate 0 vals))
      else if length vals = length tab then Inr (map2 (\<lambda>r v. r\<lparr>optimal := v\<rparr>) tab vals)
      else Inl (ValueError ''Length of values does not match length of index''))"

text \<open>\<^verbatim>\<open>solve\<close> returns the model as the call leaves it, what it printed and the
  exception it raised, if any. Its parameter \<^verbatim>\<open>solve\<close> is not used by the body.\<close>

definition solve ::
  "Model \<Rightarrow> time option \<Rightarrow> time option \<Rightarrow> solver \<Rightarrow> bool \<Rightarrow> bool \<Rightarrow> bool
     \<Rightarrow> Model \<times> printed list \<times> error option" where
  "solve m tmin_arg tmax_arg solver_arg report_arg noise initial_arg =
     (let out0 = (if noise \<and> noisemodel m = None then [Warn_no_noisemodel] else [])
      in case check_series m tmin_arg tmax_arg of
           Inl e \<Rightarrow> (m, out0, Some e)
         | Inr (m1, out1, lo, hi) \<Rightarrow>
             (case initialize initial_arg m1 of
                (m2, Some e) \<Rightarrow> (m2, out0 @ out1, Some e)
              | (m2, None) \<Rightarrow>
                  (case solver_arg m2 lo hi noise of
                     Inl e \<Rightarrow> (m2, out0 @ out1, Some e)
                   | Inr f \<Rightarrow>
                       (case parameters m2 of
                          None \<Rightarrow> (m2, out0 @ out1,
                                    Some (AttributeError ''Model instance has no attribute parameters''))
                        | Some tab \<Rightarrow>
                            (case set_optimal tab (optimal_params f) of
                               Inl e \<Rightarrow> (m2, out0 @ out1, Some e)
                             | Inr tab' \<Rightarrow>
                                 (m2\<lparr>parameters := Some tab', report := Some (fit_report f)\<rparr>,
                                  out0 @ out1 @ (if report_arg then [Report (fit_report f)] else []),
                                  None))))))"

section \<open>Notions used to state the properties\<close>

text \<open>The bound a call works with: the one given, or the default.\<close>

definition requested :: "time option \<Rightarrow> time \<Rightarrow> time" where
  "requested arg dflt = (case arg of None \<Rightarrow> dflt | Some t \<Rightarrow> t)"

text \<open>Where the slice of the \<open>i\<close>-th component starts in the parameter vector, and the
  contribution of that component alone over a time index.\<close>

definition slice_start :: "tseries list \<Rightarrow> nat \<Rightarrow> nat" where
  "slice_start cs i = sum_list (map ts_nparam (take i cs))"

definition contribution :: "tseries list \<Rightarrow> fl list \<Rightarrow> time list \<Rightarrow> nat \<Rightarrow> error + fl list" where
  "contribution cs ps tindex i =
     ts_simulate (cs ! i) (param_slice ps (slice_start cs i) (ts_nparam (cs ! i))) tindex"

text \<open>The observed values minus the simulated ones: at each observed timestamp, the
  observed value minus the value the simulated series has at that label, and NaN when
  the simulated series has no such label.\<close>

definition observed_minus_simulated :: "series \<Rightarrow> series \<Rightarrow> series" where
  "observed_minus_simulated obs h =
     map (\<lambda>p. (fst p, case map_of h (fst p) of Some v \<Rightarrow> fsub (snd p) v | None \<Rightarrow> NaN)) obs"

text \<open>The printed diagnostic of \<^verbatim>\<open>residuals\<close> for a residual series.\<close>

definition nan_diagnostic :: "series \<Rightarrow> printed list" where
  "nan_diagnostic r = (if isnan (py_sum (map fsq (values r))) then [Nan_problem] else [])"

text \<open>The component contract on row sets: as many rows as \<^verbatim>\<open>nparam\<close>.\<close>

definition rows_match_nparam :: "Model \<Rightarrow> bool" where
  "rows_match_nparam m \<longleftrightarrow>
     list_all (\<lambda>ts. length (ts_parameters ts) = ts_nparam ts) (components m)
     \<and> (case noisemodel m of None \<Rightarrow> True | Some nm \<Rightarrow> length (nm_parameters nm) = nm_nparam nm)"

text \<open>A contribution over an index of \<open>n\<close> labels: a single value counts at every
  label.\<close>

definition spread :: "nat \<Rightarrow> fl list \<Rightarrow> fl list" where
  "spread n c = (if length c = n then c else (case c of [x] \<Rightarrow> replicate n x | _ \<Rightarrow> c))"

text \<open>\<open>ps'\<close> is \<open>ps\<close> perturbed inside the slice of the \<open>j\<close>-th component only.\<close>

definition differs_only_in :: "tseries list \<Rightarrow> nat \<Rightarrow> fl list \<Rightarrow> fl list \<Rightarrow> bool" where
  "differs_only_in cs j ps ps' \<longleftrightarrow>
     length ps' = length ps
     \<and> list_all (\<lambda>p. (slice_start cs j \<le> p \<and> p < slice_start cs j + ts_nparam (cs ! j))
                      \<or> ps' ! p = ps ! p) [0 ..< length ps]"

section \<open>Example models\<close>

definition ex_oseries :: series where
  "ex_oseries = [(days 0, Fin 1), (days 1, Fin 2), (days 2, Fin 4), (days 3, Fin 3), (days 4, Fin 5)]"

definition recharge_row :: row where
  "recharge_row =
     \<lparr>label = Str ''recharge_A'', initial = Fin 1, pmin = Fin 0, pmax = Fin 10,
      vary = Some True, optimal = NaN, name = Some ''recharge''\<rparr>"

definition constant_row :: row where
  "constant_row =
     \<lparr>label = Str ''constant_d'', initial = Fin 0, pmin = NInf, pmax = PInf,
      vary = Some True, optimal = NaN, name = Some ''constant''\<rparr>"

definition noise_row :: row where
  "noise_row =
     \<lparr>label = Str ''noise_alpha'', initial = Fin 14, pmin = Fin 0, pmax = Fin 5000,
      vary = Some True, optimal = NaN, name = Some ''noise''\<rparr>"

text \<open>A component valid from day 1 to day 3 only, whose contribution at every instant
  is the sum of its parameters; a constant, which returns its one parameter; a noise
  model that leaves the residuals as they are.\<close>

definition ex_recharge :: tseries where
  "ex_recharge =
     \<lparr>ts_name = ''recharge'', is_Constant = False, ts_nparam = 1,
      ts_parameters = [recharge_row], ts_tmin = days 1, ts_tmax = days 3,
      ts_simulate = (\<lambda>p tindex. Inr (map (\<lambda>t. py_sum p) tindex))\<rparr>"

definition ex_constant :: tseries where
  "ex_constant =
     \<lparr>ts_name = ''constant'', is_Constant = True, ts_nparam = 1,
      ts_parameters = [constant_row], ts_tmin = NaT, ts_tmax = NaT,
      ts_simulate = (\<lambda>p tindex. Inr p)\<rparr>"

definition ex_noise :: noisemodel_obj where
  "ex_noise =
     \<lparr>nm_nparam = 1, nm_parameters = [noise_row],
      nm_simulate = (\<lambda>r delt p tindex. Inr r)\<rparr>"

definition ex_model :: Model where
  "ex_model = addtseries (Model_init ex_oseries) ex_recharge"

definition ex_model2 :: Model where
  "ex_model2 = addtseries ex_model ex_constant"

text \<open>\<open>ex_model\<close> after a calibration that found 1.5.\<close>

definition ex_fitted :: Model where
  "ex_fitted =
     ex_model\<lparr>tmin := Some (days 0), tmax := Some (days 4),
       parameters := Some [recharge_row\<lparr>optimal := Fin (3 / 2)\<rparr>],
       nparam := Some 1, report := Some ''fit 1''\<rparr>"

definition failing_solver :: solver where
  "failing_solver m lo hi noise = Inl (CollaboratorError ''solver did not converge'')"

definition ex_solver :: solver where
  "ex_solver m lo hi noise = Inr \<lparr>optimal_params = [Fin 2], fit_report = ''fit 2''\<rparr>"

section \<open>Evaluating the examples\<close>

lemmas ex_defs =
  ex_model_def ex_model2_def ex_fitted_def ex_recharge_def ex_constant_def ex_noise_def
  ex_oseries_def addtseries_def addnoisemodel_def Model_init_def odelt_of_def index_def
  components_def days_def hours_def D_def recharge_row_def constant_row_def noise_row_def
  failing_solver_def ex_solver_def

lemmas ts_defs =
  Timestamp_min_def Timestamp_max_def NaT_def valid_ts_def ts_lt_def ts_gt_def ts_le_def
  Timestamp_def index_min_def index_max_def first_valid_index_def last_valid_index_def

lemmas sim_defs =
  simulate_def date_range_def param_slice_def add_contribution_def broadcast_def py_sum_def
  optimal_values_def upt_rec

lemmas res_defs =
  residuals_def sse_def slice_labels_def reindex_def series_at_def sub_series_def
  fsub_def values_def tail_slice_def nan_diagnostic_def

lemmas init_defs =
  initialize_def set_initial_def appended_rows_def total_nparam_def missing_row_def
  set_optimal_def

text \<open>A calibration of \<open>ex_model\<close> that succeeds: the period is stored, the table is
  built, the optimal column and the report are those of the solver.\<close>

lemma solve_example:
  "solve ex_model None None ex_solver True False True
     = (ex_model\<lparr>tmin := Some (days 0), tmax := Some (days 4),
          parameters := Some [recharge_row\<lparr>optimal := Fin 2\<rparr>],
          nparam := Some 1, report := Some ''fit 2''\<rparr>,
        [Report ''fit 2''], None)"
  by (simp add: solve_def check_series_def init_defs ex_defs ts_defs)

section \<open>The period resolver\<close>

lemma period_loop_bounds:
  "fst (period_loop cs (a, b)) \<le> a \<and> b \<le> snd (period_loop cs (a, b))"
proof (induction cs arbitrary: a b)
  case Nil
  show ?case by simp
next
  case (Cons c cs)
  show ?case
  proof (cases "is_Constant c")
    case True
    then show ?thesis using Cons.IH[of a b] by simp
  next
    case False
    let ?a = "if ts_lt (ts_tmin c) a then ts_tmin c else a"
    let ?b = "if ts_gt (ts_tmax c) b then ts_tmax c else b"
    have "?a \<le> a" "b \<le> ?b"
      by (auto simp: ts_lt_def ts_gt_def)
    moreover have "fst (period_loop cs (?a, ?b)) \<le> ?a \<and> ?b \<le> snd (period_loop cs (?a, ?b))"
      by (rule Cons.IH)
    ultimately show ?thesis using False by (simp del: period_loop.simps(1))
  qed
qed

lemma fold_min_valid:
  "valid_ts t \<Longrightarrow> \<forall>x\<in>set ts. valid_ts x \<Longrightarrow> valid_ts (fold min ts t)"
  by (induction ts arbitrary: t) (auto simp: min_def)

lemma fold_max_valid:
  "valid_ts t \<Longrightarrow> \<forall>x\<in>set ts. valid_ts x \<Longrightarrow> valid_ts (fold max ts t)"
  by (induction ts arbitrary: t) (auto simp: max_def)

lemma index_min_ok:
  "\<forall>t\<in>set (index s). valid_ts t \<Longrightarrow> index_min s = NaT \<or> valid_ts (index_min s)"
  by (auto simp: index_min_def fold_min_valid split: list.splits)

lemma index_max_ok:
  "\<forall>t\<in>set (index s). valid_ts t \<Longrightarrow> index_max s = NaT \<or> valid_ts (index_max s)"
  by (auto simp: index_max_def fold_max_valid split: list.splits)

text \<open>The two final comparisons of \<^verbatim>\<open>check_series\<close> are never true: the tracked
  minimum starts at \<^verbatim>\<open>Timestamp.min\<close> and can only go down, the tracked maximum starts
  at \<^verbatim>\<open>Timestamp.max\<close> and can only go up.\<close>

lemma no_clip_lo:
  "t = NaT \<or> valid_ts t \<Longrightarrow> \<not> ts_gt (fst (period_loop cs (Timestamp_min, Timestamp_max))) t"
  using period_loop_bounds[of cs Timestamp_min Timestamp_max]
  by (auto simp: ts_gt_def ts_lt_def valid_ts_def)

lemma no_clip_hi:
  "t = NaT \<or> valid_ts t \<Longrightarrow> \<not> ts_lt (snd (period_loop cs (Timestamp_min, Timestamp_max))) t"
  using period_loop_bounds[of cs Timestamp_min Timestamp_max]
  by (auto simp: ts_gt_def ts_lt_def valid_ts_def)

lemma check_series_result:
  assumes "\<forall>t\<in>set (index (oseries m)). valid_ts t"
    and "check_series m a b = Inr (m', out, lo, hi)"
  shows "lo = requested a (index_min (oseries m))"
    and "hi = requested b (index_max (oseries m))"
    and "m' = m\<lparr>tmin := Some lo, tmax := Some hi\<rparr>"
proof -
  obtain t0 where t0:
    "(case a of None \<Rightarrow> Inr (index_min (oseries m)) | Some t \<Rightarrow> Timestamp t) = Inr t0"
    using assms(2) by (auto simp: check_series_def split: sum.splits)
  obtain t1 where t1:
    "(case b of None \<Rightarrow> Inr (index_max (oseries m)) | Some t \<Rightarrow> Timestamp t) = Inr t1"
    using assms(2) t0 by (auto simp: check_series_def split: sum.splits)
  have r0: "t0 = requested a (index_min (oseries m))" and v0: "t0 = NaT \<or> valid_ts t0"
    using t0 index_min_ok[OF assms(1)]
    by (auto simp: requested_def Timestamp_def split: option.splits if_splits)
  have r1: "t1 = requested b (index_max (oseries m))" and v1: "t1 = NaT \<or> valid_ts t1"
    using t1 index_max_ok[OF assms(1)]
    by (auto simp: requested_def Timestamp_def split: option.splits if_splits)
  have res: "m' = m\<lparr>tmin := Some t0, tmax := Some t1\<rparr> \<and> lo = t0 \<and> hi = t1"
    using assms(2) no_clip_lo[OF v0, of "components m"] no_clip_hi[OF v1, of "components m"]
    unfolding check_series_def t0 t1 by (auto simp: Let_def)
  show "lo = requested a (index_min (oseries m))" using res r0 by simp
  show "hi = requested b (index_max (oseries m))" using res r1 by simp
  show "m' = m\<lparr>tmin := Some lo, tmax := Some hi\<rparr>" using res by simp
qed

text \<open>
  C1. The claim: with a non-constant component whose window is narrower than the
  observed series, the pair \<^verbatim>\<open>check_series\<close> returns lies inside that window, and a
  requested \<^verbatim>\<open>tmin\<close> before it is raised to the bound. The code does not do that. In
  \<open>ex_model\<close> the observations run from day 0 to day 4 and the only component, which is
  not a constant, is valid from day 1 to day 3: \<^verbatim>\<open>check_series()\<close> returns day 0 and
  day 4, and \<^verbatim>\<open>check_series(tmin)\<close> with \<^verbatim>\<open>tmin\<close> three days before the first
  observation returns that \<^verbatim>\<open>tmin\<close> as it is (with the warning).
\<close>

theorem check_series_returns_unclipped_window:
  "components ex_model = [ex_recharge] \<and> \<not> is_Constant ex_recharge
   \<and> ts_tmin ex_recharge = days 1 \<and> ts_tmax ex_recharge = days 3
   \<and> index_min (oseries ex_model) = days 0 \<and> index_max (oseries ex_model) = days 4
   \<and> check_series ex_model None None
       = Inr (ex_model\<lparr>tmin := Some (days 0), tmax := Some (days 4)\<rparr>, [], days 0, days 4)
   \<and> check_series ex_model (Some (days (- 3))) None
       = Inr (ex_model\<lparr>tmin := Some (days (- 3)), tmax := Some (days 4)\<rparr>,
              [Warn_tmin_outside (Some (days 0))], days (- 3), days 4)"
  by (simp add: check_series_def ex_defs ts_defs)

text \<open>
  C10. The claim: \<^verbatim>\<open>check_series\<close> stores in \<^verbatim>\<open>self.tmin\<close>, \<^verbatim>\<open>self.tmax\<close> the
  requested bounds (the first and last observed timestamps when omitted) as they are
  before the clipping step, returns the clipped bounds, and so the stored window can be
  wider than the returned one. In the code the first part holds, and the returned pair
  is always the stored pair: the clipping step changes nothing, so the stored window is
  never wider than the returned one.
\<close>

theorem check_series_stores_what_it_returns:
  assumes "\<forall>t\<in>set (index (oseries m)). valid_ts t"
    and "check_series m tmin_arg tmax_arg = Inr (m', out, lo, hi)"
  shows "tmin m' = Some (requested tmin_arg (index_min (oseries m)))
       \<and> tmax m' = Some (requested tmax_arg (index_max (oseries m)))
       \<and> tmin m' = Some lo \<and> tmax m' = Some hi"
  using check_series_result[OF assms] by simp

theorem check_series_stores_what_it_returns_witness:
  "list_all valid_ts (index (oseries ex_model2))
   \<and> check_series ex_model2 (Some (days 0)) None
       = Inr (ex_model2\<lparr>tmin := Some (days 0), tmax := Some (days 4)\<rparr>, [], days 0, days 4)
   \<and> tmin (ex_model2\<lparr>tmin := Some (days 0), tmax := Some (days 4)\<rparr>) = Some (days 0)
   \<and> tmax (ex_model2\<lparr>tmin := Some (days 0), tmax := Some (days 4)\<rparr>) = Some (days 4)
   \<and> ts_tmin ex_recharge = days 1 \<and> ts_tmax ex_recharge = days 3"
proof -
  have v: "\<forall>t\<in>set (index (oseries ex_model2)). valid_ts t"
    by (simp add: ex_defs ts_defs)
  have c: "check_series ex_model2 (Some (days 0)) None
       = Inr (ex_model2\<lparr>tmin := Some (days 0), tmax := Some (days 4)\<rparr>, [], days 0, days 4)"
    by (simp add: check_series_def ex_defs ts_defs)
  have w: "ts_tmin ex_recharge = days 1 \<and> ts_tmax ex_recharge = days 3"
    by (simp add: ex_defs)
  show ?thesis
    using check_series_stores_what_it_returns[OF v c] v c w by (simp add: list_all_iff)
qed

section \<open>The simulation engine\<close>




lemma slice_start_Cons: "slice_start (c # cs) (Suc k) = ts_nparam c + slice_start cs k"
  by (simp add: slice_start_def)

lemma slice_start_0: "slice_start cs 0 = 0"
  by (simp add: slice_start_def)

lemma spread_length: "length c = n \<or> length c = 1 \<Longrightarrow> length (spread n c) = n"
  by (cases c) (auto simp: spread_def split: list.splits)

lemma add_contribution_Inr:
  assumes "add_contribution h c = Inr h1"
  shows "(length c = length h \<or> length c = 1) \<and> h1 = map2 fadd h (spread (length h) c)"
  using assms
  by (auto simp: add_contribution_def broadcast_def spread_def split: if_splits list.splits)

lemma add_contribution_ok:
  assumes "length c = length h \<or> length c = 1"
  shows "\<exists>h1. add_contribution h c = Inr h1 \<and> length h1 = length h"
proof (cases "length c = length h")
  case True
  then show ?thesis by (simp add: add_contribution_def broadcast_def)
next
  case False
  with assms obtain x where "c = [x]" by (cases c) auto
  with False show ?thesis by (simp add: add_contribution_def broadcast_def)
qed

lemma simulate_loop_sum:
  "simulate_loop cs ps tindex i h = Inr h' \<Longrightarrow>
   \<exists>contribs. length contribs = length cs
     \<and> (\<forall>k<length cs.
           ts_simulate (cs ! k) (param_slice ps (i + slice_start cs k) (ts_nparam (cs ! k))) tindex
             = Inr (contribs ! k)
           \<and> (length (contribs ! k) = length h \<or> length (contribs ! k) = 1))
     \<and> h' = foldl (map2 fadd) h (map (spread (length h)) contribs) \<and> length h' = length h"
proof (induction cs arbitrary: i h)
  case Nil
  then show ?case by simp
next
  case (Cons c cs)
  from Cons.prems obtain x where x: "ts_simulate c (param_slice ps i (ts_nparam c)) tindex = Inr x"
    by (auto split: sum.splits)
  from Cons.prems x obtain h1 where h1: "add_contribution h x = Inr h1"
    and rest: "simulate_loop cs ps tindex (i + ts_nparam c) h1 = Inr h'"
    by (auto split: sum.splits)
  from add_contribution_Inr[OF h1]
  have lx: "length x = length h \<or> length x = 1" and h1eq: "h1 = map2 fadd h (spread (length h) x)"
    by simp_all
  have lh1: "length h1 = length h" using h1eq spread_length[OF lx] by simp
  from Cons.IH[OF rest] obtain cs' where cs':
    "length cs' = length cs"
    "\<forall>k<length cs.
       ts_simulate (cs ! k) (param_slice ps (i + ts_nparam c + slice_start cs k) (ts_nparam (cs ! k))) tindex
         = Inr (cs' ! k)
       \<and> (length (cs' ! k) = length h1 \<or> length (cs' ! k) = 1)"
    "h' = foldl (map2 fadd) h1 (map (spread (length h1)) cs')" "length h' = length h1"
    by blast
  have "\<forall>k<length (c # cs).
          ts_simulate ((c # cs) ! k) (param_slice ps (i + slice_start (c # cs) k) (ts_nparam ((c # cs) ! k))) tindex
            = Inr ((x # cs') ! k)
          \<and> (length ((x # cs') ! k) = length h \<or> length ((x # cs') ! k) = 1)"
  proof (intro allI impI)
    fix k assume "k < length (c # cs)"
    then show "ts_simulate ((c # cs) ! k) (param_slice ps (i + slice_start (c # cs) k) (ts_nparam ((c # cs) ! k))) tindex
            = Inr ((x # cs') ! k)
          \<and> (length ((x # cs') ! k) = length h \<or> length ((x # cs') ! k) = 1)"
      using x lx cs'(2) lh1 by (cases k) (simp_all add: slice_start_0 slice_start_Cons add.assoc)
  qed
  then show ?case
    using cs' h1eq lh1 by (intro exI[of _ "x # cs'"]) simp
qed

lemma simulate_loop_returns:
  "\<forall>k<length cs. \<exists>c.
      ts_simulate (cs ! k) (param_slice ps (i + slice_start cs k) (ts_nparam (cs ! k))) tindex = Inr c
      \<and> (length c = length h \<or> length c = 1) \<Longrightarrow>
   \<exists>h'. simulate_loop cs ps tindex i h = Inr h'"
proof (induction cs arbitrary: i h)
  case Nil
  show ?case by simp
next
  case (Cons c cs)
  from Cons.prems[rule_format, of 0] obtain x where
    x: "ts_simulate c (param_slice ps i (ts_nparam c)) tindex = Inr x"
    and lx: "length x = length h \<or> length x = 1"
    by (auto simp: slice_start_0)
  from add_contribution_ok[OF lx] obtain h1 where
    h1: "add_contribution h x = Inr h1" and lh1: "length h1 = length h" by blast
  have "\<forall>k<length cs. \<exists>c'.
      ts_simulate (cs ! k) (param_slice ps (i + ts_nparam c + slice_start cs k) (ts_nparam (cs ! k))) tindex = Inr c'
      \<and> (length c' = length h1 \<or> length c' = 1)"
  proof (intro allI impI)
    fix k assume "k < length cs"
    then show "\<exists>c'.
      ts_simulate (cs ! k) (param_slice ps (i + ts_nparam c + slice_start cs k) (ts_nparam (cs ! k))) tindex = Inr c'
      \<and> (length c' = length h1 \<or> length c' = 1)"
      using Cons.prems[rule_format, of "Suc k"] lh1 by (simp add: slice_start_Cons add.assoc)
  qed
  from Cons.IH[OF this] show ?case using x h1 by simp
qed

lemma param_slice_cong:
  assumes "length ps' = length ps"
    and "\<forall>p<length ps. off \<le> p \<and> p < off + n \<longrightarrow> ps' ! p = ps ! p"
  shows "param_slice ps' off n = param_slice ps off n"
  unfolding param_slice_def
proof (rule nth_equalityI)
  show "length (take n (drop off ps')) = length (take n (drop off ps))"
    using assms(1) by simp
next
  fix i assume "i < length (take n (drop off ps'))"
  then have "i < n" "off + i < length ps" using assms(1) by auto
  then show "take n (drop off ps') ! i = take n (drop off ps) ! i"
    using assms by simp
qed

lemma sum_list_take_mono:
  fixes xs :: "nat list"
  assumes "a \<le> b"
  shows "sum_list (take a xs) \<le> sum_list (take b xs)"
proof -
  have "take a (take b xs) @ drop a (take b xs) = take b xs"
    by (rule append_take_drop_id)
  moreover have "take a (take b xs) = take a xs" using assms by (simp add: min_def)
  ultimately have "take b xs = take a xs @ drop a (take b xs)" by simp
  then have "sum_list (take b xs) = sum_list (take a xs) + sum_list (drop a (take b xs))"
    by (metis sum_list_append)
  then show ?thesis by simp
qed

lemma slice_start_Suc:
  "k < length cs \<Longrightarrow> slice_start cs (Suc k) = slice_start cs k + ts_nparam (cs ! k)"
  by (simp add: slice_start_def take_Suc_conv_app_nth)

lemma slice_start_mono: "a \<le> b \<Longrightarrow> slice_start cs a \<le> slice_start cs b"
  using sum_list_take_mono[of a b "map ts_nparam cs"] by (simp add: slice_start_def take_map)

lemma slices_disjoint:
  assumes "k < length cs" "j < length cs" "k \<noteq> j"
  shows "slice_start cs k + ts_nparam (cs ! k) \<le> slice_start cs j
       \<or> slice_start cs j + ts_nparam (cs ! j) \<le> slice_start cs k"
proof (cases "k < j")
  case True
  then have "slice_start cs (Suc k) \<le> slice_start cs j" by (intro slice_start_mono) simp
  then show ?thesis using slice_start_Suc[OF assms(1)] by simp
next
  case False
  then have "j < k" using assms(3) by simp
  then have "slice_start cs (Suc j) \<le> slice_start cs k" by (intro slice_start_mono) simp
  then show ?thesis using slice_start_Suc[OF assms(2)] by simp
qed

lemma contribution_unperturbed:
  assumes "differs_only_in cs j ps ps'" "k < length cs" "j < length cs" "k \<noteq> j"
  shows "contribution cs ps' tindex k = contribution cs ps tindex k"
proof -
  have len: "length ps' = length ps" using assms(1) by (simp add: differs_only_in_def)
  have agree: "\<forall>p<length ps. (slice_start cs j \<le> p \<and> p < slice_start cs j + ts_nparam (cs ! j)) \<or> ps' ! p = ps ! p"
    using assms(1) by (simp add: differs_only_in_def list_all_iff)
  have "\<forall>p<length ps. slice_start cs k \<le> p \<and> p < slice_start cs k + ts_nparam (cs ! k) \<longrightarrow> ps' ! p = ps ! p"
  proof (intro allI impI)
    fix p assume p: "p < length ps" and r: "slice_start cs k \<le> p \<and> p < slice_start cs k + ts_nparam (cs ! k)"
    from slices_disjoint[OF assms(2,3,4)] r
    have "\<not> (slice_start cs j \<le> p \<and> p < slice_start cs j + ts_nparam (cs ! j))" by auto
    with agree p show "ps' ! p = ps ! p" by blast
  qed
  from param_slice_cong[OF len this] show ?thesis by (simp add: contribution_def)
qed

lemma foldl_map2_nth:
  "list_all (\<lambda>c. length c = length h) cs \<Longrightarrow> j < length h \<Longrightarrow>
   foldl (map2 f) h cs ! j = foldl f (h ! j) (map (\<lambda>c. c ! j) cs)"
  by (induction cs arbitrary: h) simp_all

text \<open>
  C4. Whenever \<^verbatim>\<open>simulate\<close> returns a series (for the parameter vector given, or
  the optimal column of the table when none is given, and the window given, or the
  stored one), its index is the generated time index, one entry for each timestamp,
  and its values are the elementwise sum, from zero and in registration order, of the
  contributions, each computed by its component on the slice of the parameter vector
  that starts where the slices of the components before it end; a contribution is one
  value for each timestamp, or a single value, which counts at every timestamp. A vector
  perturbed inside the slice of one component only leaves the contribution of every
  other component as it was. And \<^verbatim>\<open>simulate\<close> does return a series whenever the time
  index can be generated and every component returns such a contribution.
\<close>

theorem simulate_is_sum_of_contributions:
  "(simulate m parameters_arg tmin_arg tmax_arg freq = Inr h \<longrightarrow>
      (\<exists>ps lo hi tindex contribs.
         (parameters_arg = Some ps
            \<or> parameters_arg = None \<and> (\<exists>tab. parameters m = Some tab \<and> ps = map optimal tab))
       \<and> (tmin_arg = Some lo \<or> tmin_arg = None \<and> tmin m = Some lo)
       \<and> (tmax_arg = Some hi \<or> tmax_arg = None \<and> tmax m = Some hi)
       \<and> date_range lo hi freq = Inr tindex \<and> index h = tindex
       \<and> length contribs = length (components m)
       \<and> (\<forall>k<length (components m).
             contribution (components m) ps tindex k = Inr (contribs ! k)
             \<and> (length (contribs ! k) = length tindex \<or> length (contribs ! k) = 1))
       \<and> values h = foldl (map2 fadd) (replicate (length tindex) (Fin 0))
                       (map (spread (length tindex)) contribs)
       \<and> (\<forall>i<length tindex.
             values h ! i = py_sum (map (\<lambda>c. spread (length tindex) c ! i) contribs))
       \<and> (\<forall>ps' j k. differs_only_in (components m) j ps ps' \<and> j < length (components m)
              \<and> k < length (components m) \<and> k \<noteq> j
            \<longrightarrow> contribution (components m) ps' tindex k = Inr (contribs ! k))))
   \<and> (date_range lo0 hi0 freq = Inr tindex0
        \<and> (\<forall>k<length (components m). \<exists>c.
               contribution (components m) ps0 tindex0 k = Inr c
               \<and> (length c = length tindex0 \<or> length c = 1)) \<longrightarrow>
      (\<exists>h0. simulate m (Some ps0) (Some lo0) (Some hi0) freq = Inr h0))"
proof (intro conjI impI)
  assume run: "simulate m parameters_arg tmin_arg tmax_arg freq = Inr h"
  from run obtain lo hi where
    lo: "tmin_arg = Some lo \<or> tmin_arg = None \<and> tmin m = Some lo"
    and hi: "tmax_arg = Some hi \<or> tmax_arg = None \<and> tmax m = Some hi"
    and win: "(case tmin_arg of None \<Rightarrow> tmin m | Some t \<Rightarrow> Some t) = Some lo"
             "(case tmax_arg of None \<Rightarrow> tmax m | Some t \<Rightarrow> Some t) = Some hi"
    by (auto simp: simulate_def split: option.splits)
  from run win obtain tindex where tindex: "date_range lo hi freq = Inr tindex"
    by (auto simp: simulate_def split: sum.splits)
  from run win tindex obtain ps where
    psr: "(case parameters_arg of None \<Rightarrow> optimal_values m | Some p \<Rightarrow> Inr p) = Inr ps"
    by (auto simp: simulate_def split: sum.splits)
  then have ps: "parameters_arg = Some ps
            \<or> parameters_arg = None \<and> (\<exists>tab. parameters m = Some tab \<and> ps = map optimal tab)"
    by (auto simp: optimal_values_def split: option.splits)
  from run win tindex psr obtain v where v:
    "simulate_loop (components m) ps tindex 0 (replicate (length tindex) (Fin 0)) = Inr v"
    and h: "h = zip tindex v"
    by (auto simp: simulate_def split: sum.splits)
  from simulate_loop_sum[OF v] obtain contribs where c:
    "length contribs = length (components m)"
    "\<forall>k<length (components m).
        contribution (components m) ps tindex k = Inr (contribs ! k)
        \<and> (length (contribs ! k) = length tindex \<or> length (contribs ! k) = 1)"
    "v = foldl (map2 fadd) (replicate (length tindex) (Fin 0)) (map (spread (length tindex)) contribs)"
    "length v = length tindex"
    by (auto simp: contribution_def)
  have idx: "index h = tindex" and vals: "values h = v"
    using h c(4) by (simp_all add: index_def values_def)
  have all_len: "list_all (\<lambda>c. length c = length (replicate (length tindex) (Fin 0::fl)))
                   (map (spread (length tindex)) contribs)"
    unfolding list_all_iff
  proof
    fix x assume "x \<in> set (map (spread (length tindex)) contribs)"
    then obtain k where k: "k < length contribs" "x = spread (length tindex) (contribs ! k)"
      by (auto simp: in_set_conv_nth)
    then show "length x = length (replicate (length tindex) (Fin 0::fl))"
      using c(1) c(2) spread_length[of "contribs ! k" "length tindex"] by simp
  qed
  have pt: "\<forall>i<length tindex.
              values h ! i = py_sum (map (\<lambda>c. spread (length tindex) c ! i) contribs)"
    using foldl_map2_nth[OF all_len, of _ fadd] vals c(3) by (simp add: py_sum_def comp_def)
  have pert: "\<forall>ps' j k. differs_only_in (components m) j ps ps' \<and> j < length (components m)
            \<and> k < length (components m) \<and> k \<noteq> j
          \<longrightarrow> contribution (components m) ps' tindex k = Inr (contribs ! k)"
  proof (intro allI impI)
    fix ps' j k
    assume a: "differs_only_in (components m) j ps ps' \<and> j < length (components m)
            \<and> k < length (components m) \<and> k \<noteq> j"
    then have "contribution (components m) ps' tindex k = contribution (components m) ps tindex k"
      by (intro contribution_unperturbed[of _ j]) simp_all
    then show "contribution (components m) ps' tindex k = Inr (contribs ! k)"
      using c(2) a by simp
  qed
  show "\<exists>ps lo hi tindex contribs.
         (parameters_arg = Some ps
            \<or> parameters_arg = None \<and> (\<exists>tab. parameters m = Some tab \<and> ps = map optimal tab))
       \<and> (tmin_arg = Some lo \<or> tmin_arg = None \<and> tmin m = Some lo)
       \<and> (tmax_arg = Some hi \<or> tmax_arg = None \<and> tmax m = Some hi)
       \<and> date_range lo hi freq = Inr tindex \<and> index h = tindex
       \<and> length contribs = length (components m)
       \<and> (\<forall>k<length (components m).
             contribution (components m) ps tindex k = Inr (contribs ! k)
             \<and> (length (contribs ! k) = length tindex \<or> length (contribs ! k) = 1))
       \<and> values h = foldl (map2 fadd) (replicate (length tindex) (Fin 0))
                       (map (spread (length tindex)) contribs)
       \<and> (\<forall>i<length tindex.
             values h ! i = py_sum (map (\<lambda>c. spread (length tindex) c ! i) contribs))
       \<and> (\<forall>ps' j k. differs_only_in (components m) j ps ps' \<and> j < length (components m)
              \<and> k < length (components m) \<and> k \<noteq> j
            \<longrightarrow> contribution (components m) ps' tindex k = Inr (contribs ! k))"
    using ps lo hi tindex idx c(1) c(2) vals c(3) pt pert by blast
next
  assume a: "date_range lo0 hi0 freq = Inr tindex0
        \<and> (\<forall>k<length (components m). \<exists>c.
               contribution (components m) ps0 tindex0 k = Inr c
               \<and> (length c = length tindex0 \<or> length c = 1))"
  then have "\<forall>k<length (components m). \<exists>c.
      ts_simulate (components m ! k)
        (param_slice ps0 (0 + slice_start (components m) k) (ts_nparam (components m ! k))) tindex0 = Inr c
      \<and> (length c = length (replicate (length tindex0) (Fin 0::fl)) \<or> length c = 1)"
    by (simp add: contribution_def)
  from simulate_loop_returns[OF this] obtain v where
    "simulate_loop (components m) ps0 tindex0 0 (replicate (length tindex0) (Fin 0)) = Inr v"
    by blast
  then show "\<exists>h0. simulate m (Some ps0) (Some lo0) (Some hi0) freq = Inr h0"
    using a by (simp add: simulate_def)
qed

theorem simulate_is_sum_of_contributions_witness:
  "simulate ex_model2 (Some [Fin 1, Fin 2]) (Some (days 0)) (Some (days 2)) D
     = Inr [(days 0, Fin 3), (days 1, Fin 3), (days 2, Fin 3)]
   \<and> date_range (days 0) (days 2) D = Inr [days 0, days 1, days 2]
   \<and> contribution (components ex_model2) [Fin 1, Fin 2] [days 0, days 1, days 2] 0
       = Inr [Fin 1, Fin 1, Fin 1]
   \<and> contribution (components ex_model2) [Fin 1, Fin 2] [days 0, days 1, days 2] 1 = Inr [Fin 2]
   \<and> spread 3 [Fin 2] = [Fin 2, Fin 2, Fin 2]
   \<and> differs_only_in (components ex_model2) 1 [Fin 1, Fin 2] [Fin 1, Fin 7]
   \<and> contribution (components ex_model2) [Fin 1, Fin 7] [days 0, days 1, days 2] 0
       = Inr [Fin 1, Fin 1, Fin 1]
   \<and> simulate (ex_fitted\<lparr>parameters := Some [recharge_row\<lparr>optimal := Fin 2\<rparr>]\<rparr>) None None (Some (days 1)) D
       = Inr [(days 0, Fin 2), (days 1, Fin 2)]"
proof -
  have s: "simulate ex_model2 (Some [Fin 1, Fin 2]) (Some (days 0)) (Some (days 2)) D
     = Inr [(days 0, Fin 3), (days 1, Fin 3), (days 2, Fin 3)]"
    by (simp add: sim_defs ex_defs ts_defs)
  have d: "date_range (days 0) (days 2) D = Inr [days 0, days 1, days 2]"
    by (simp add: sim_defs ex_defs ts_defs)
  have p: "differs_only_in (components ex_model2) 1 [Fin 1, Fin 2] [Fin 1, Fin 7]"
    by (simp add: differs_only_in_def slice_start_def ex_defs upt_rec)
  have l: "length (components ex_model2) = 2"
    by (simp add: ex_defs)
  have sp: "spread 3 [Fin 2] = [Fin 2, Fin 2, Fin 2]"
    by (simp add: spread_def numeral_3_eq_3)
  have dflt: "simulate (ex_fitted\<lparr>parameters := Some [recharge_row\<lparr>optimal := Fin 2\<rparr>]\<rparr>) None None (Some (days 1)) D
       = Inr [(days 0, Fin 2), (days 1, Fin 2)]"
    by (simp add: sim_defs ex_defs ts_defs)
  from simulate_is_sum_of_contributions[THEN conjunct1, THEN mp, OF s]
  obtain ps lo hi tindex contribs where r:
    "Some [Fin 1, Fin 2] = Some ps
       \<or> Some [Fin 1, Fin 2] = None \<and> (\<exists>tab. parameters ex_model2 = Some tab \<and> ps = map optimal tab)"
    "Some (days 0) = Some lo \<or> Some (days 0) = None \<and> tmin ex_model2 = Some lo"
    "Some (days 2) = Some hi \<or> Some (days 2) = None \<and> tmax ex_model2 = Some hi"
    "date_range lo hi D = Inr tindex"
    "\<forall>k<length (components ex_model2).
        contribution (components ex_model2) ps tindex k = Inr (contribs ! k)
        \<and> (length (contribs ! k) = length tindex \<or> length (contribs ! k) = 1)"
    "\<forall>ps' j k. differs_only_in (components ex_model2) j ps ps' \<and> j < length (components ex_model2)
            \<and> k < length (components ex_model2) \<and> k \<noteq> j
          \<longrightarrow> contribution (components ex_model2) ps' tindex k = Inr (contribs ! k)"
    by blast
  have eqs: "ps = [Fin 1, Fin 2]" "lo = days 0" "hi = days 2"
    using r(1,2,3) by simp_all
  note t = r(4,5,6)[unfolded eqs]
  have ti: "tindex = [days 0, days 1, days 2]" using t(1) d by simp
  have c0: "contribution (components ex_model2) [Fin 1, Fin 2] [days 0, days 1, days 2] 0
              = Inr [Fin 1, Fin 1, Fin 1]"
    by (simp add: contribution_def slice_start_def sim_defs ex_defs)
  have c1: "contribution (components ex_model2) [Fin 1, Fin 2] [days 0, days 1, days 2] 1 = Inr [Fin 2]"
    by (simp add: contribution_def slice_start_def sim_defs ex_defs)
  have "contribs ! 0 = [Fin 1, Fin 1, Fin 1]"
    using t(2) c0 l ti by simp
  moreover have "contribution (components ex_model2) [Fin 1, Fin 7] tindex 0 = Inr (contribs ! 0)"
    using t(3)[rule_format, of 1 "[Fin 1, Fin 7]" 0] p l by simp
  ultimately have c7: "contribution (components ex_model2) [Fin 1, Fin 7] [days 0, days 1, days 2] 0
                         = Inr [Fin 1, Fin 1, Fin 1]"
    using ti by simp
  show ?thesis using s d c0 c1 sp p c7 dflt by simp
qed


text \<open>
  C5. The claim: before any calibration, \<^verbatim>\<open>simulate\<close> and \<^verbatim>\<open>residuals\<close> without a
  parameter vector fail with the error "model must be solved first". What the code does:
  \<^verbatim>\<open>simulate\<close> without \<^verbatim>\<open>tmin\<close> and \<^verbatim>\<open>tmax\<close> fails with the assertion
  \<^verbatim>\<open>'model needs to be solved first'\<close> when the model has no stored period;
  \<^verbatim>\<open>residuals\<close> without a parameter vector fails on a model that has no parameter
  table, with the attribute error of the missing table.
\<close>

theorem unfit_model_errors:
  "(tmin m = None \<or> tmax m = None \<longrightarrow>
      simulate m parameters_arg None None freq = Inl (AssertionError ''model needs to be solved first''))
   \<and> (parameters m = None \<longrightarrow>
      residuals m None tmin_arg tmax_arg noise
        = Inl (AttributeError ''Model instance has no attribute parameters''))"
  by (auto simp: simulate_def residuals_def optimal_values_def Let_def split: option.splits)

theorem unfit_model_errors_witness:
  "tmin ex_model = None \<and> parameters ex_model = None
   \<and> simulate ex_model None None None D = Inl (AssertionError ''model needs to be solved first'')
   \<and> residuals ex_model None None None True
        = Inl (AttributeError ''Model instance has no attribute parameters'')"
  using unfit_model_errors[of ex_model None D None None True]
  by (simp add: ex_defs)

text \<open>
  C5, as stated, fails: on the fresh \<open>ex_model\<close>, \<^verbatim>\<open>residuals()\<close> raises the attribute
  error, not the assertion; so does \<^verbatim>\<open>simulate()\<close> once \<^verbatim>\<open>check_series\<close> has stored a
  period and no table exists.
\<close>

theorem residuals_unfit_is_attribute_error:
  "parameters ex_model = None \<and> tmin ex_model = None \<and> tmax ex_model = None
   \<and> residuals ex_model None None None False
       = Inl (AttributeError ''Model instance has no attribute parameters'')
   \<and> residuals ex_model None None None False
       \<noteq> Inl (AssertionError ''model needs to be solved first'')
   \<and> simulate (ex_model\<lparr>tmin := Some (days 0), tmax := Some (days 4)\<rparr>) None None None D
       = Inl (AttributeError ''Model instance has no attribute parameters'')"
  by (simp add: sim_defs res_defs ex_defs ts_defs)

section \<open>The residual engine\<close>

lemma series_at_own:
  "distinct (index s) \<Longrightarrow> p \<in> set s \<Longrightarrow> series_at s (fst p) = snd p"
  by (cases p) (simp add: series_at_def index_def)

lemma reindex_own:
  assumes "distinct (index s)" and "set s' \<subseteq> set s"
  shows "reindex s (index s') = s'"
proof -
  have "map (\<lambda>p. (fst p, series_at s (fst p))) s' = map (\<lambda>p. p) s'"
    using assms series_at_own[OF assms(1)] by (intro map_cong) auto
  then show ?thesis by (simp add: reindex_def index_def comp_def)
qed

lemma sub_series_reindex:
  "sub_series s' (reindex h (index s'))
     = map (\<lambda>p. (fst p, fsub (snd p) (series_at h (fst p)))) s'"
  by (induction s') (simp_all add: sub_series_def reindex_def index_def)

lemma raw_residuals:
  assumes "distinct (index (oseries m))"
  shows "sub_series (reindex (oseries m) (index (slice_labels (oseries m) lo hi)))
                    (reindex h (index (slice_labels (oseries m) lo hi)))
       = map (\<lambda>p. (fst p, fsub (snd p) (series_at h (fst p)))) (slice_labels (oseries m) lo hi)"
proof -
  have "set (slice_labels (oseries m) lo hi) \<subseteq> set (oseries m)"
    by (auto simp: slice_labels_def)
  from reindex_own[OF assms this] show ?thesis
    by (simp add: sub_series_reindex)
qed

lemma fsub_NaN: "fsub x NaN = NaN"
  by (cases x) (simp_all add: fsub_def)

lemma raw_residuals_explicit:
  assumes "distinct (index (oseries m))"
  shows "sub_series (reindex (oseries m) (index (slice_labels (oseries m) lo hi)))
                    (reindex h (index (slice_labels (oseries m) lo hi)))
       = observed_minus_simulated (slice_labels (oseries m) lo hi) h"
  unfolding raw_residuals[OF assms] observed_minus_simulated_def
  by (rule map_cong) (auto simp: series_at_def fsub_NaN split: option.splits)

lemma simulate_index:
  assumes "simulate m (Some ps) (Some lo) (Some hi) freq = Inr h"
  shows "date_range lo hi freq = Inr (index h)"
proof -
  from assms obtain tindex where tindex: "date_range lo hi freq = Inr tindex"
    by (auto simp: simulate_def split: sum.splits)
  from assms tindex obtain v where v:
    "simulate_loop (components m) ps tindex 0 (replicate (length tindex) (Fin 0)) = Inr v"
    and h: "h = zip tindex v"
    by (auto simp: simulate_def split: sum.splits)
  from simulate_loop_sum[OF v] have "length v = length tindex" by auto
  then show ?thesis using tindex h by (simp add: index_def)
qed

text \<open>
  C3. The claim: without the noise model, \<^verbatim>\<open>residuals(parameters, tmin, tmax,
  noise=False)\<close> is, at each observed timestamp of the window, the observed value
  minus the value of \<^verbatim>\<open>simulate(parameters, tmin, tmax)\<close> at that timestamp. What the
  code does: the simulated series lives on the daily index that starts at \<^verbatim>\<open>tmin\<close>,
  and is looked up at the observed timestamps by label. The residual is the observed
  value minus the simulated one at an observed timestamp that is a label of that
  index, and NaN at an observed timestamp that is not; there is one residual for each
  observed timestamp of the window, and \<^verbatim>\<open>residuals\<close> fails exactly when
  \<^verbatim>\<open>simulate\<close> fails.
\<close>

theorem residuals_without_noise:
  assumes "distinct (index (oseries m))"
  shows "residuals m (Some ps) (Some lo) (Some hi) False =
     (case simulate m (Some ps) (Some lo) (Some hi) D of
        Inl e \<Rightarrow> Inl e
      | Inr h \<Rightarrow>
          Inr (observed_minus_simulated (slice_labels (oseries m) lo hi) h,
               nan_diagnostic (observed_minus_simulated (slice_labels (oseries m) lo hi) h)))
   \<and> (simulate m (Some ps) (Some lo) (Some hi) D = Inr h0 \<longrightarrow>
        date_range lo hi D = Inr (index h0))"
  using raw_residuals_explicit[OF assms] simulate_index[of m ps lo hi D h0]
  by (simp add: residuals_def nan_diagnostic_def Let_def split: sum.splits)

theorem residuals_without_noise_witness:
  "distinct (index (oseries ex_model))
   \<and> simulate ex_model (Some [Fin 1]) (Some (days 1)) (Some (days 3)) D
       = Inr [(days 1, Fin 1), (days 2, Fin 1), (days 3, Fin 1)]
   \<and> slice_labels (oseries ex_model) (days 1) (days 3) = [(days 1, Fin 2), (days 2, Fin 4), (days 3, Fin 3)]
   \<and> residuals ex_model (Some [Fin 1]) (Some (days 1)) (Some (days 3)) False
       = Inr ([(days 1, Fin 1), (days 2, Fin 3), (days 3, Fin 2)], [])
   \<and> date_range (days 1) (days 3) D = Inr [days 1, days 2, days 3]"
proof -
  have d: "distinct (index (oseries ex_model))"
    by (simp add: ex_defs)
  have s: "simulate ex_model (Some [Fin 1]) (Some (days 1)) (Some (days 3)) D
       = Inr [(days 1, Fin 1), (days 2, Fin 1), (days 3, Fin 1)]"
    by (simp add: sim_defs ex_defs ts_defs)
  have w: "slice_labels (oseries ex_model) (days 1) (days 3) = [(days 1, Fin 2), (days 2, Fin 4), (days 3, Fin 3)]"
    by (simp add: slice_labels_def ex_defs ts_defs)
  show ?thesis
    using residuals_without_noise[OF d, of "[Fin 1]" "days 1" "days 3"
        "[(days 1, Fin 1), (days 2, Fin 1), (days 3, Fin 1)]"] d
    unfolding s w
    by (simp add: observed_minus_simulated_def fsub_def nan_diagnostic_def py_sum_def values_def
        index_def days_def D_def)
qed

text \<open>
  C3, as stated, fails for a window inside the observed extent that does not start on
  an observed time of day: the observations of \<open>ex_model\<close> are at midnight of days 0 to
  4; for the window from noon of day 0 to noon of day 3 the simulated series has the
  value 1 at noon of days 0 to 3, no value at the observed timestamps, and every
  residual is NaN (and the diagnostic is printed).
\<close>

theorem residuals_off_grid_are_nan:
  "index_min (oseries ex_model) \<le> days 0 + hours 12
   \<and> days 3 + hours 12 \<le> index_max (oseries ex_model)
   \<and> slice_labels (oseries ex_model) (days 0 + hours 12) (days 3 + hours 12)
       = [(days 1, Fin 2), (days 2, Fin 4), (days 3, Fin 3)]
   \<and> simulate ex_model (Some [Fin 1]) (Some (days 0 + hours 12)) (Some (days 3 + hours 12)) D
       = Inr [(days 0 + hours 12, Fin 1), (days 1 + hours 12, Fin 1),
              (days 2 + hours 12, Fin 1), (days 3 + hours 12, Fin 1)]
   \<and> residuals ex_model (Some [Fin 1]) (Some (days 0 + hours 12)) (Some (days 3 + hours 12)) False
       = Inr ([(days 1, NaN), (days 2, NaN), (days 3, NaN)], [Nan_problem])"
  by (simp add: sim_defs res_defs ex_defs ts_defs)

text \<open>
  C9. The claim: when the sum of squared residuals is not finite (NaN or infinite),
  \<^verbatim>\<open>residuals\<close> reports it and still returns the series, and \<^verbatim>\<open>sse\<close> still returns
  a value. What the code does: the check is \<^verbatim>\<open>np.isnan\<close>, so \<^verbatim>\<open>'nan problem in
  residuals'\<close> is printed exactly when the sum is NaN; nothing is printed for an infinite
  sum. The check never raises: \<^verbatim>\<open>residuals\<close> returns the series and \<^verbatim>\<open>sse\<close> the sum
  whenever \<^verbatim>\<open>simulate\<close>, and the noise model when it is used, return.
\<close>

theorem residuals_nan_check:
  "(residuals m parameters_arg tmin_arg tmax_arg noise = Inr (r, out) \<longrightarrow>
      out = (if isnan (py_sum (map fsq (values r))) then [Nan_problem] else [])
      \<and> sse m parameters_arg tmin_arg tmax_arg noise = Inr (py_sum (map fsq (values r)), out))
   \<and> (simulate m (Some ps) (Some lo) (Some hi) D = Inr h \<and> (\<not> noise \<or> noisemodel m = None) \<longrightarrow>
      (\<exists>r'. residuals m (Some ps) (Some lo) (Some hi) noise = Inr (r', nan_diagnostic r')
          \<and> sse m (Some ps) (Some lo) (Some hi) noise
               = Inr (py_sum (map fsq (values r')), nan_diagnostic r')))
   \<and> (simulate m (Some ps) (Some lo) (Some hi) D = Inr h \<and> noise \<and> noisemodel m = Some nm
        \<and> nm_simulate nm
             (sub_series (reindex (oseries m) (index (slice_labels (oseries m) lo hi)))
                         (reindex h (index (slice_labels (oseries m) lo hi))))
             (reindex (odelt m) (index (slice_labels (oseries m) lo hi)))
             (tail_slice ps (nm_nparam nm)) (index (slice_labels (oseries m) lo hi)) = Inr r2 \<longrightarrow>
      residuals m (Some ps) (Some lo) (Some hi) noise = Inr (r2, nan_diagnostic r2)
      \<and> sse m (Some ps) (Some lo) (Some hi) noise
               = Inr (py_sum (map fsq (values r2)), nan_diagnostic r2))"
  by (auto simp: residuals_def sse_def nan_diagnostic_def Let_def split: sum.splits option.splits if_splits)

theorem residuals_nan_check_witness:
  "residuals ex_model (Some [NaN]) (Some (days 1)) (Some (days 2)) True
     = Inr ([(days 1, NaN), (days 2, NaN)], [Nan_problem])
   \<and> sse ex_model (Some [NaN]) (Some (days 1)) (Some (days 2)) True = Inr (NaN, [Nan_problem])
   \<and> simulate ex_model (Some [NaN]) (Some (days 1)) (Some (days 2)) D = Inr [(days 1, NaN), (days 2, NaN)]
   \<and> noisemodel ex_model = None"
proof -
  have r: "residuals ex_model (Some [NaN]) (Some (days 1)) (Some (days 2)) True
     = Inr ([(days 1, NaN), (days 2, NaN)], [Nan_problem])"
    by (simp add: sim_defs res_defs ex_defs ts_defs)
  have s: "simulate ex_model (Some [NaN]) (Some (days 1)) (Some (days 2)) D = Inr [(days 1, NaN), (days 2, NaN)]"
    by (simp add: sim_defs ex_defs ts_defs)
  have n: "noisemodel ex_model = None" by (simp add: ex_defs)
  show ?thesis
    using residuals_nan_check[of ex_model "Some [NaN]" "Some (days 1)" "Some (days 2)" True
        "[(days 1, NaN), (days 2, NaN)]" "[Nan_problem]" "[NaN]" "days 1" "days 2" "[(days 1, NaN), (days 2, NaN)]"]
      r s n
    by (simp add: py_sum_def values_def)
qed

text \<open>
  C9, as stated, fails for an infinite sum: with the parameter \<open>PInf\<close> the residuals of
  \<open>ex_model\<close> are infinite, their sum of squares is \<open>PInf\<close>, and nothing is printed.
\<close>

theorem infinite_sse_not_reported:
  "residuals ex_model (Some [PInf]) (Some (days 1)) (Some (days 2)) False
     = Inr ([(days 1, NInf), (days 2, NInf)], [])
   \<and> sse ex_model (Some [PInf]) (Some (days 1)) (Some (days 2)) False = Inr (PInf, [])
   \<and> \<not> isfinite PInf"
  by (simp add: sim_defs res_defs ex_defs ts_defs)

section \<open>The parameter table\<close>

lemma map2_initial:
  "length tab = length col \<Longrightarrow>
   map initial (map2 (\<lambda>r p. r\<lparr>initial := snd p\<rparr>) tab col) = map snd col
   \<and> map label (map2 (\<lambda>r p. r\<lparr>initial := snd p\<rparr>) tab col) = map label tab
   \<and> map optimal (map2 (\<lambda>r p. r\<lparr>initial := snd p\<rparr>) tab col) = map optimal tab"
  by (induction tab col rule: list_induct2) simp_all





lemma set_initial_keeps:
  assumes "set_initial tab col = Inr tab'" and "tab \<noteq> [] \<or> col = []"
  shows "length tab' = length tab \<and> map optimal tab' = map optimal tab"
proof (cases "tab = []")
  case True
  then show ?thesis using assms by (auto simp: set_initial_def)
next
  case False
  show ?thesis
  proof (cases "map label tab = map fst col")
    case True
    then have len: "length tab = length col" by (rule map_eq_imp_length_eq)
    from map2_initial[OF len] len True False assms(1) show ?thesis
      by (auto simp: set_initial_def)
  next
    case neq: False
    with False assms(1) show ?thesis
      by (auto simp: set_initial_def comp_def split: if_splits)
  qed
qed

lemma concat_rows_length:
  "list_all (\<lambda>ts. length (ts_parameters ts) = ts_nparam ts) cs \<Longrightarrow>
   length (concat (map ts_parameters cs)) = sum_list (map ts_nparam cs)"
  by (induction cs) simp_all

lemma appended_rows_length:
  "rows_match_nparam m \<Longrightarrow> length (appended_rows m) = total_nparam m"
  by (auto simp: rows_match_nparam_def appended_rows_def total_nparam_def concat_rows_length
      split: option.splits)

lemma initialize_result:
  assumes "initialize initial_arg m = (m', None)"
  shows "\<exists>tab. m' = m\<lparr>nparam := Some (total_nparam m), parameters := Some tab\<rparr>
           \<and> (initial_arg \<longrightarrow> tab = appended_rows m)
           \<and> (initial_arg \<or> appended_rows m \<noteq> [] \<or> parameters m = Some [] \<longrightarrow>
                length tab = length (appended_rows m)
                \<and> map optimal tab = map optimal (appended_rows m))"
proof (cases initial_arg)
  case True
  then show ?thesis using assms by (auto simp: initialize_def Let_def)
next
  case False
  from assms False obtain old where old: "parameters m = Some old"
    by (auto simp: initialize_def split: option.splits)
  from assms False old obtain tab where tab:
    "set_initial (appended_rows m) (map (\<lambda>r. (label r, optimal r)) old) = Inr tab"
    "m' = m\<lparr>nparam := Some (total_nparam m), parameters := Some tab\<rparr>"
    by (auto simp: initialize_def Let_def split: sum.splits)
  have "appended_rows m \<noteq> [] \<or> parameters m = Some [] \<longrightarrow>
          length tab = length (appended_rows m) \<and> map optimal tab = map optimal (appended_rows m)"
    using set_initial_keeps[OF tab(1)] old by auto
  then show ?thesis using tab(2) False by auto
qed

text \<open>
  C8. The claim: after every call of \<^verbatim>\<open>initialize\<close>, the table has as many rows as
  the sum of \<^verbatim>\<open>nparam\<close> over the components plus that of the noise model, and this is
  \<^verbatim>\<open>self.nparam\<close>. With components and a noise model whose row sets have \<^verbatim>\<open>nparam\<close>
  rows, this holds after every call that returns with \<^verbatim>\<open>initial=True\<close>, and with
  \<^verbatim>\<open>initial=False\<close> when the rebuilt table has a row or the previous table had none.
\<close>

theorem initialize_row_count:
  assumes "rows_match_nparam m"
    and "initialize initial_arg m = (m', None)"
    and "initial_arg \<or> appended_rows m \<noteq> [] \<or> parameters m = Some []"
  shows "\<exists>tab. parameters m' = Some tab
           \<and> length tab = sum_list (map ts_nparam (components m'))
                           + (case noisemodel m' of None \<Rightarrow> 0 | Some nm \<Rightarrow> nm_nparam nm)
           \<and> nparam m' = Some (length tab)"
proof -
  from initialize_result[OF assms(2)] assms(3) obtain tab where tab:
    "m' = m\<lparr>nparam := Some (total_nparam m), parameters := Some tab\<rparr>"
    "length tab = length (appended_rows m)"
    by blast
  have "length tab = total_nparam m"
    using tab(2) appended_rows_length[OF assms(1)] by simp
  then show ?thesis
    using tab(1) by (simp add: total_nparam_def components_def)
qed

theorem initialize_row_count_witness:
  "rows_match_nparam (addnoisemodel ex_model2 (Some ex_noise))
   \<and> initialize True (addnoisemodel ex_model2 (Some ex_noise))
       = (addnoisemodel ex_model2 (Some ex_noise)
            \<lparr>nparam := Some 3, parameters := Some [recharge_row, constant_row, noise_row]\<rparr>, None)
   \<and> length [recharge_row, constant_row, noise_row] = 3"
proof -
  have c: "rows_match_nparam (addnoisemodel ex_model2 (Some ex_noise))"
    by (simp add: rows_match_nparam_def ex_defs)
  have i: "initialize True (addnoisemodel ex_model2 (Some ex_noise))
       = (addnoisemodel ex_model2 (Some ex_noise)
            \<lparr>nparam := Some 3, parameters := Some [recharge_row, constant_row, noise_row]\<rparr>, None)"
    by (simp add: init_defs ex_defs)
  show ?thesis
    using initialize_row_count[OF c i] c i by simp
qed

text \<open>
  C8, as stated, fails in the remaining case: a model whose table was built with a
  noise model, and whose noise model is then set to \<^verbatim>\<open>None\<close>, has an empty registry; a
  warm start builds an empty frame, and assigning the previous optimal column to it
  gives the frame the one label of that column. The table has one row and
  \<^verbatim>\<open>self.nparam\<close> is 0.
\<close>

theorem warm_start_on_emptied_registry:
  "initialize True (addnoisemodel (Model_init ex_oseries) (Some ex_noise))
     = (addnoisemodel (Model_init ex_oseries) (Some ex_noise)
          \<lparr>nparam := Some 1, parameters := Some [noise_row]\<rparr>, None)
   \<and> initialize False
        (addnoisemodel
           (addnoisemodel (Model_init ex_oseries) (Some ex_noise)
              \<lparr>nparam := Some 1, parameters := Some [noise_row]\<rparr>) None)
     = (Model_init ex_oseries
          \<lparr>nparam := Some 0, parameters := Some [missing_row (Str ''noise_alpha'')]\<rparr>, None)
   \<and> length [missing_row (Str ''noise_alpha'')] \<noteq> 0"
  by (simp add: init_defs ex_defs)

section \<open>The calibration orchestrator\<close>

lemma check_series_frame:
  assumes "check_series m a b = Inr (m1, out1, lo, hi)"
  shows "\<exists>t0 t1. m1 = m\<lparr>tmin := Some t0, tmax := Some t1\<rparr>"
  using assms by (auto simp: check_series_def Let_def split: sum.splits)

text \<open>
  C2. The claim: when the solver raises, the previous fit (the optimal column of the
  table, and the report) is unchanged. What the code does: the exception leaves
  \<^verbatim>\<open>solve\<close>, and the report is unchanged; but \<^verbatim>\<open>check_series\<close> and \<^verbatim>\<open>initialize\<close>
  have run before the solver: the period is stored, \<^verbatim>\<open>self.nparam\<close> is set, and the
  table is the rebuilt one, whose optimal column is that of the rows of the components
  and the noise model.
\<close>

theorem solve_when_solver_raises:
  assumes "check_series m tmin_arg tmax_arg = Inr (m1, out1, lo, hi)"
    and "initialize initial_arg m1 = (m2, None)"
    and "solver_arg m2 lo hi noise = Inl e"
  shows "fst (solve m tmin_arg tmax_arg solver_arg report_arg noise initial_arg) = m2
       \<and> snd (snd (solve m tmin_arg tmax_arg solver_arg report_arg noise initial_arg)) = Some e
       \<and> report m2 = report m
       \<and> tmin m2 = tmin m1 \<and> tmax m2 = tmax m1
       \<and> nparam m2 = Some (total_nparam m)
       \<and> (\<exists>tab. parameters m2 = Some tab
             \<and> (initial_arg \<longrightarrow> tab = appended_rows m)
             \<and> (initial_arg \<or> appended_rows m \<noteq> [] \<or> parameters m = Some [] \<longrightarrow>
                  map optimal tab = map optimal (appended_rows m)))"
proof -
  from check_series_frame[OF assms(1)] obtain t0 t1 where
    m1: "m1 = m\<lparr>tmin := Some t0, tmax := Some t1\<rparr>" by blast
  have same: "appended_rows m1 = appended_rows m" "total_nparam m1 = total_nparam m"
    "report m1 = report m" "parameters m1 = parameters m"
    by (simp_all add: m1 appended_rows_def total_nparam_def components_def)
  from initialize_result[OF assms(2)] obtain tab where tab:
    "m2 = m1\<lparr>nparam := Some (total_nparam m1), parameters := Some tab\<rparr>"
    "initial_arg \<longrightarrow> tab = appended_rows m1"
    "initial_arg \<or> appended_rows m1 \<noteq> [] \<or> parameters m1 = Some [] \<longrightarrow>
       map optimal tab = map optimal (appended_rows m1)"
    by blast
  have run: "solve m tmin_arg tmax_arg solver_arg report_arg noise initial_arg
       = (m2, (if noise \<and> noisemodel m = None then [Warn_no_noisemodel] else []) @ out1, Some e)"
    using assms by (simp add: solve_def Let_def)
  show ?thesis
    unfolding run using tab same by auto
qed

theorem solve_when_solver_raises_witness:
  "check_series ex_fitted None None = Inr (ex_fitted, [], days 0, days 4)
   \<and> initialize True ex_fitted = (ex_fitted\<lparr>parameters := Some [recharge_row]\<rparr>, None)
   \<and> failing_solver (ex_fitted\<lparr>parameters := Some [recharge_row]\<rparr>) (days 0) (days 4) True
       = Inl (CollaboratorError ''solver did not converge'')
   \<and> solve ex_fitted None None failing_solver True True True
       = (ex_fitted\<lparr>parameters := Some [recharge_row]\<rparr>, [Warn_no_noisemodel],
          Some (CollaboratorError ''solver did not converge''))
   \<and> report (ex_fitted\<lparr>parameters := Some [recharge_row]\<rparr>) = Some ''fit 1''"
proof -
  have c: "check_series ex_fitted None None = Inr (ex_fitted, [], days 0, days 4)"
    by (simp add: check_series_def ex_defs ts_defs)
  have i: "initialize True ex_fitted = (ex_fitted\<lparr>parameters := Some [recharge_row]\<rparr>, None)"
    by (simp add: init_defs ex_defs)
  have f: "failing_solver (ex_fitted\<lparr>parameters := Some [recharge_row]\<rparr>) (days 0) (days 4) True
       = Inl (CollaboratorError ''solver did not converge'')"
    by (simp add: failing_solver_def)
  have s: "solve ex_fitted None None failing_solver True True True
       = (ex_fitted\<lparr>parameters := Some [recharge_row]\<rparr>, [Warn_no_noisemodel],
          Some (CollaboratorError ''solver did not converge''))"
    by (simp add: solve_def check_series_def init_defs ex_defs ts_defs)
  show ?thesis
    using solve_when_solver_raises[where solver_arg = failing_solver and noise = True
        and report_arg = True, OF c i f] c i f s
    by (simp add: ex_defs)
qed

text \<open>
  C2, as stated, fails: \<open>ex_fitted\<close> has the optimal value 1.5; after a warm-start
  \<^verbatim>\<open>solve\<close> whose solver raises, the optimal column of the table is NaN (1.5 is now the
  initial value).
\<close>

theorem failed_solve_loses_optimal_column:
  "parameters ex_fitted = Some [recharge_row\<lparr>optimal := Fin (3 / 2)\<rparr>]
   \<and> snd (snd (solve ex_fitted None None failing_solver True True False))
       = Some (CollaboratorError ''solver did not converge'')
   \<and> parameters (fst (solve ex_fitted None None failing_solver True True False))
       = Some [recharge_row\<lparr>initial := Fin (3 / 2)\<rparr>]
   \<and> map optimal [recharge_row\<lparr>initial := Fin (3 / 2)\<rparr>] = [NaN]
   \<and> map optimal [recharge_row\<lparr>optimal := Fin (3 / 2)\<rparr>] = [Fin (3 / 2)]"
  by (simp add: solve_def check_series_def init_defs ex_defs ts_defs)

end
